theory Spec2Isabelle
  imports Main "HOL-Library.Sublist"
begin

section \<open>JavaScript values and string primitives used by the validator\<close>

text \<open>
  An optional string property (\<^verbatim>\<open>string | undefined\<close>) is a \<open>string option\<close>, with
  \<open>None\<close> for \<^verbatim>\<open>undefined\<close>. The source tests such values for truthiness
  (\<^verbatim>\<open>!x\<close>, \<^verbatim>\<open>!!x\<close>, \<^verbatim>\<open>a || b\<close>): \<^verbatim>\<open>undefined\<close> and the empty string are falsy,
  every other string is truthy.
\<close>

definition truthy :: "string option \<Rightarrow> bool" where
  "truthy s = (case s of None \<Rightarrow> False | Some t \<Rightarrow> t \<noteq> [])"

text \<open>\<^verbatim>\<open>a || b\<close> on optional strings: \<open>a\<close> when it is truthy, \<open>b\<close> otherwise.\<close>

definition js_or :: "string option \<Rightarrow> string option \<Rightarrow> string option" where
  "js_or a b = (if truthy a then a else b)"

text \<open>Interpolation \<^verbatim>\<open>${x}\<close> in a template literal: \<^verbatim>\<open>undefined\<close> prints as its name.\<close>

definition interpolate :: "string option \<Rightarrow> string" where
  "interpolate s = (case s of None \<Rightarrow> ''undefined'' | Some t \<Rightarrow> t)"

text \<open>
  \<^verbatim>\<open>String.prototype.indexOf(pat)\<close>: the index of the first occurrence of \<open>pat\<close>, or
  \<open>-1\<close>. The auxiliary function carries the index of the position it looks at.
\<close>

fun indexOf_from :: "string \<Rightarrow> string \<Rightarrow> nat \<Rightarrow> int" where
  "indexOf_from [] pat i = (if pat = [] then int i else - 1)"
| "indexOf_from (c # cs) pat i =
     (if prefix pat (c # cs) then int i else indexOf_from cs pat (Suc i))"

definition indexOf :: "string \<Rightarrow> string \<Rightarrow> int" where
  "indexOf s pat = indexOf_from s pat 0"

text \<open>\<^verbatim>\<open>Array.prototype.indexOf(x)\<close> on an array of strings.\<close>

fun array_indexOf_from :: "string list \<Rightarrow> string \<Rightarrow> nat \<Rightarrow> int" where
  "array_indexOf_from [] x i = - 1"
| "array_indexOf_from (y # ys) x i =
     (if y = x then int i else array_indexOf_from ys x (Suc i))"

definition array_indexOf :: "string list \<Rightarrow> string \<Rightarrow> int" where
  "array_indexOf xs x = array_indexOf_from xs x 0"

text \<open>\<^verbatim>\<open>Array.prototype.includes(x)\<close> and \<^verbatim>\<open>Array.prototype.every(p)\<close>.\<close>

definition array_includes :: "string list \<Rightarrow> string \<Rightarrow> bool" where
  "array_includes xs x = (x \<in> set xs)"

definition every :: "('a \<Rightarrow> bool) \<Rightarrow> 'a list \<Rightarrow> bool" where
  "every p xs = list_all p xs"

text \<open>
  \<^verbatim>\<open>s.split(" ")\<close>: the pieces of \<open>s\<close> between single spaces. The result is never
  empty: \<^verbatim>\<open>"".split(" ")\<close> is \<^verbatim>\<open>[""]\<close>, and two adjacent spaces give an empty piece.
\<close>

fun split_space :: "string \<Rightarrow> string list" where
  "split_space [] = [[]]"
| "split_space (c # cs) =
     (if c = CHR '' '' then [] # split_space cs
      else (c # hd (split_space cs)) # tl (split_space cs))"


section \<open>Thrown values\<close>

text \<open>
  What the validator's methods throw: a \<^verbatim>\<open>new Error(message)\<close> (made by the constructor
  or by \<^verbatim>\<open>throwFormattedError\<close>), the verifier's exception thrown again unchanged, or
  the \<^verbatim>\<open>TypeError\<close> of calling a value that is not a function.
\<close>

datatype thrown =
    Error string
  | Rethrown string
  | TypeError string


section \<open>SimpleCache\<close>

text \<open>
  \<^verbatim>\<open>memoryCache: Record<string, T> = {}\<close> is an ordinary JavaScript object: its own
  properties, and a prototype, which is \<^verbatim>\<open>Object.prototype\<close> (\<open>None\<close> here) until an
  assignment replaces it.
\<close>

record 'a SimpleCache =
  own :: "string \<rightharpoonup> 'a"
  prototype :: "'a option"

definition new_SimpleCache :: "'a SimpleCache" where
  "new_SimpleCache = \<lparr>own = Map.empty, prototype = None\<rparr>"

text \<open>
  \<^verbatim>\<open>this.memoryCache[key] = value\<close>. For the key \<^verbatim>\<open>__proto__\<close> the assignment runs the
  setter that \<^verbatim>\<open>Object.prototype\<close> has under that name: the value, an object, becomes
  the prototype and no own property is made. Every other key becomes an own property,
  also a key that names a method of \<^verbatim>\<open>Object.prototype\<close>, which it then shadows.
\<close>

definition setItem :: "'a SimpleCache \<Rightarrow> string \<Rightarrow> 'a \<Rightarrow> 'a SimpleCache" where
  "setItem memoryCache key v =
     (if key = ''__proto__'' then memoryCache\<lparr>prototype := Some v\<rparr>
      else memoryCache\<lparr>own := (own memoryCache)(key \<mapsto> v)\<rparr>)"

text \<open>
  \<^verbatim>\<open>this.memoryCache.hasOwnProperty(key) ? this.memoryCache[key] : undefined\<close>. The
  method is looked up on the object itself first: when a value has been stored under
  the key \<^verbatim>\<open>hasOwnProperty\<close>, that value is what the call finds, and calling it throws a
  \<^verbatim>\<open>TypeError\<close>. Otherwise the method is that of \<^verbatim>\<open>Object.prototype\<close> (a prototype set
  through \<^verbatim>\<open>__proto__\<close> is a stored value, which has no property of that name), and it
  answers for the own properties only.
\<close>

definition getItem :: "'a SimpleCache \<Rightarrow> string \<Rightarrow> thrown + 'a option" where
  "getItem memoryCache key =
     (case own memoryCache ''hasOwnProperty'' of
        Some v \<Rightarrow> Inl (TypeError ''this.memoryCache.hasOwnProperty is not a function'')
      | None \<Rightarrow> Inr (own memoryCache key))"


section \<open>SimpleValidator\<close>

text \<open>
  A rule's predicate, \<^verbatim>\<open>validate\<close> in the source, is \<open>validate_rule\<close> here: the name
  \<open>validate\<close> is kept for the validator's method.
\<close>

record 'a SimpleValidationRule =
  validate_rule :: "'a \<Rightarrow> bool"
  invalidMessage :: string

text \<open>
  \<^verbatim>\<open>SimpleValidationResult\<close> has \<^verbatim>\<open>isValid\<close> and the optional \<^verbatim>\<open>validationMessage\<close>.
  \<^verbatim>\<open>AzureAdTokenValidationResult\<close> below has the same two properties and two more, so
  it is the record extended.
\<close>

record SimpleValidationResult =
  isValid :: bool
  validationMessage :: "string option"

text \<open>
  The loop of \<^verbatim>\<open>validateRules\<close>: the first rule whose predicate is false on the value
  sets the two properties of the result and breaks.
\<close>

fun validateRules_loop ::
  "'a \<Rightarrow> 'a SimpleValidationRule list \<Rightarrow> SimpleValidationResult \<Rightarrow> SimpleValidationResult"
where
  "validateRules_loop v [] validationResult = validationResult"
| "validateRules_loop v (rule # rules) validationResult =
     (if \<not> validate_rule rule v
      then validationResult\<lparr>isValid := False, validationMessage := Some (invalidMessage rule)\<rparr>
      else validateRules_loop v rules validationResult)"

definition validateRules :: "'a \<Rightarrow> 'a SimpleValidationRule list \<Rightarrow> SimpleValidationResult" where
  "validateRules v rules =
     validateRules_loop v rules \<lparr>isValid = True, validationMessage = None\<rparr>"


section \<open>Options, tokens and keys\<close>

text \<open>
  \<^verbatim>\<open>AzureAdTokenValidationOptions\<close>. The interface declares the first three properties
  as strings, but the constructor tests two of them for presence, and a JavaScript
  caller can leave any of them out: each is optional here.
\<close>

record AzureAdTokenValidationOptions =
  tenantId :: "string option"
  audience :: "string option"
  metadataDocumentUri :: "string option"
  allowedApplicationIds :: "string list option"
  roles :: "string list option"
  requiredScopes :: "string list option"
  validIssuers :: "string list option"

text \<open>
  The header and payload properties that the validator reads. What jsonwebtoken and
  axios hand back is taken at the types their interfaces declare: \<^verbatim>\<open>alg\<close> is a string,
  \<^verbatim>\<open>kid\<close> and the payload's claims are optional strings, the documents have the
  properties of their interfaces.
\<close>

record JwtHeader =
  alg :: string
  kid :: "string option"

record JwtPayload =
  tid :: "string option"
  azp :: "string option"
  appid :: "string option"
  scp :: "string option"

record Jwt =
  header :: JwtHeader
  payload :: JwtPayload
  signature :: string

text \<open>\<^verbatim>\<open>AzureAdKeyValue\<close>; its \<^verbatim>\<open>kid\<close> and \<^verbatim>\<open>use\<close> are \<open>key_kid\<close> and \<open>key_use\<close>.\<close>

record AzureAdKeyValue =
  key_kid :: string
  key_use :: string
  x5t :: string
  x5c :: "string list"

record AzureAdOpenIdConnectMetadataDocument =
  jwks_uri :: string

record AzureAdOpenIdConnectMetadataKeysDocument =
  keys :: "AzureAdKeyValue list"

record AzureAdTokenValidationResult = SimpleValidationResult +
  accessToken :: string
  decodedAccessToken :: "Jwt option"


section \<open>validateAdditionalClaims\<close>

text \<open>The three rule predicates, in the order of the source's array.\<close>

definition tenant_rule :: "AzureAdTokenValidationOptions \<Rightarrow> JwtPayload \<Rightarrow> bool" where
  "tenant_rule opts tokenPayload =
     (truthy (tid tokenPayload) \<and> tid tokenPayload = tenantId opts)"

definition application_rule :: "AzureAdTokenValidationOptions \<Rightarrow> JwtPayload \<Rightarrow> bool" where
  "application_rule opts tokenPayload =
     (case allowedApplicationIds opts of
        None \<Rightarrow> True
      | Some ids \<Rightarrow>
          length ids = 0 \<or>
          (truthy (js_or (azp tokenPayload) (appid tokenPayload)) \<and>
           (case js_or (azp tokenPayload) (appid tokenPayload) of
              None \<Rightarrow> False
            | Some a \<Rightarrow> array_indexOf ids a \<ge> 0)))"

definition scopesAsArray :: "JwtPayload \<Rightarrow> string list" where
  "scopesAsArray tokenPayload =
     (case scp tokenPayload of None \<Rightarrow> [] | Some s \<Rightarrow> split_space s)"

definition scopes_rule :: "AzureAdTokenValidationOptions \<Rightarrow> JwtPayload \<Rightarrow> bool" where
  "scopes_rule opts tokenPayload =
     (case requiredScopes opts of
        None \<Rightarrow> True
      | Some req \<Rightarrow>
          length req = 0 \<or> every (\<lambda>s. array_includes (scopesAsArray tokenPayload) s) req)"

definition validators ::
  "AzureAdTokenValidationOptions \<Rightarrow> JwtPayload SimpleValidationRule list" where
  "validators opts =
     [\<lparr>validate_rule = tenant_rule opts, invalidMessage = ''tenantId does not match''\<rparr>,
      \<lparr>validate_rule = application_rule opts,
        invalidMessage = ''authenticated applicationId not in allowed list''\<rparr>,
      \<lparr>validate_rule = scopes_rule opts, invalidMessage = ''required scopes missing''\<rparr>]"

definition validateAdditionalClaims ::
  "JwtPayload \<Rightarrow> AzureAdTokenValidationOptions \<Rightarrow> SimpleValidationResult" where
  "validateAdditionalClaims tokenPayload opts = validateRules tokenPayload (validators opts)"


section \<open>Errors and the external collaborators\<close>

text \<open>
  What \<^verbatim>\<open>axios.get\<close> can throw, as \<^verbatim>\<open>throwFormattedError\<close> tells the cases apart: an
  axios error (an \<^verbatim>\<open>Error\<close> whose \<^verbatim>\<open>response\<close> or \<^verbatim>\<open>request\<close> may be present, each
  given here by the text \<^verbatim>\<open>JSON.stringify({ data, status })\<close> yields for it), another
  \<^verbatim>\<open>Error\<close>, a string, or any other value.
\<close>

datatype caught =
    AxiosError (response: "string option") (request: "string option") (axios_message: string)
  | ErrorObject string
  | StringValue string
  | OtherValue

text \<open>\<^verbatim>\<open>new Error(undefined)\<close> has the empty message.\<close>

definition throwFormattedError :: "caught \<Rightarrow> string option \<Rightarrow> thrown" where
  "throwFormattedError error defaultErrorMessage =
     (case error of
        AxiosError resp req msg \<Rightarrow>
          (case resp of
             Some r \<Rightarrow> Error r
           | None \<Rightarrow> (case req of Some q \<Rightarrow> Error q | None \<Rightarrow> Error msg))
      | ErrorObject msg \<Rightarrow> Error msg
      | StringValue s \<Rightarrow> Error s
      | OtherValue \<Rightarrow> Error (case defaultErrorMessage of None \<Rightarrow> [] | Some d \<Rightarrow> d))"

text \<open>
  The outcome of jsonwebtoken's \<^verbatim>\<open>verify\<close>: it returns, throws a
  \<^verbatim>\<open>JsonWebTokenError\<close> with a message, or throws something else.
\<close>

datatype verify_outcome =
    Verified
  | JsonWebTokenError string
  | OtherException string

record VerifyOptions =
  algorithms :: "string list"
  verify_audience :: "string option"
  issuer :: "string list option"

text \<open>
  The collaborators that are not code of this repository are parameters: jsonwebtoken's
  \<^verbatim>\<open>decode\<close> (\<open>None\<close> for \<^verbatim>\<open>null\<close>) and \<^verbatim>\<open>verify\<close> (token, key material, options),
  and \<^verbatim>\<open>axios.get\<close> at its two result types. The metadata URI is passed as the option
  holds it. Every call of \<^verbatim>\<open>validate\<close> takes its own environment, so a later call may
  meet other responses than an earlier one.
\<close>

record environment =
  decode :: "string \<Rightarrow> Jwt option"
  verify :: "string \<Rightarrow> string option \<Rightarrow> VerifyOptions \<Rightarrow> verify_outcome"
  axios_get_metadata :: "string option \<Rightarrow> caught + AzureAdOpenIdConnectMetadataDocument"
  axios_get_keys :: "string \<Rightarrow> caught + AzureAdOpenIdConnectMetadataKeysDocument"

text \<open>
  The state outside a validator instance: the module's \<^verbatim>\<open>cache\<close>, shared by all
  instances, and two logs that the source does not keep, of the requests sent through
  \<^verbatim>\<open>axios.get\<close> and of the calls of \<^verbatim>\<open>verify\<close>, in the order they were made.
\<close>

datatype request =
    GetMetadata "string option"
  | GetKeys string

record verify_call =
  call_token :: string
  call_key :: "string option"
  call_options :: VerifyOptions

record world =
  cache :: "AzureAdKeyValue SimpleCache"
  requests :: "request list"
  verify_calls :: "verify_call list"


section \<open>AzureAdTokenValidator\<close>

record AzureAdTokenValidator =
  options :: AzureAdTokenValidationOptions
  metadata :: "AzureAdOpenIdConnectMetadataDocument option"

text \<open>The constructor stores the options and throws when one of two is falsy.\<close>

definition constructor :: "AzureAdTokenValidationOptions \<Rightarrow> thrown + AzureAdTokenValidator" where
  \<open>constructor opts =
     (if \<not> truthy (tenantId opts) then Inl (Error ''"tenantId" value was not provided'')
      else if \<not> truthy (audience opts) then Inl (Error ''"audience" value was not provided'')
      else Inr \<lparr>options = opts, metadata = None\<rparr>)\<close>

definition loadMetadata ::
  "environment \<Rightarrow> AzureAdTokenValidator \<Rightarrow> world \<Rightarrow> (thrown + AzureAdTokenValidator) \<times> world"
where
  "loadMetadata env this w =
     (let uri = metadataDocumentUri (options this);
          w1 = w\<lparr>requests := requests w @ [GetMetadata uri]\<rparr>
      in case axios_get_metadata env uri of
           Inr data \<Rightarrow> (Inr (this\<lparr>metadata := Some data\<rparr>), w1)
         | Inl error \<Rightarrow> (Inl (throwFormattedError error None), w1))"

text \<open>
  The loop of \<^verbatim>\<open>getPublicKey\<close> over the keys of the response: each key is stored with
  \<^verbatim>\<open>cache.setItem(header.kid, publicKey)\<close>.
\<close>

fun cache_keys ::
  "string \<Rightarrow> AzureAdKeyValue list \<Rightarrow> AzureAdKeyValue SimpleCache \<Rightarrow> AzureAdKeyValue SimpleCache"
where
  "cache_keys header_kid [] c = c"
| "cache_keys header_kid (publicKey # rest) c =
     cache_keys header_kid rest (setItem c header_kid publicKey)"

definition keys_url :: "AzureAdTokenValidator \<Rightarrow> JwtPayload \<Rightarrow> string" where
  "keys_url this tokenPayload =
     interpolate (map_option jwks_uri (metadata this)) @ ''?appid='' @
     interpolate (js_or (azp tokenPayload) (appid tokenPayload))"

text \<open>
  \<^verbatim>\<open>getPublicKey\<close>. \<^verbatim>\<open>!header.kid\<close> holds for a missing and for an empty key identifier;
  a cached key is an object, hence truthy. Both calls of \<^verbatim>\<open>cache.getItem\<close> stand
  outside the \<^verbatim>\<open>try\<close>: what they throw leaves the method as it is.
\<close>

definition getPublicKey ::
  "environment \<Rightarrow> AzureAdTokenValidator \<Rightarrow> Jwt \<Rightarrow> world \<Rightarrow>
   (thrown + AzureAdKeyValue option) \<times> world"
where
  "getPublicKey env this jwt w =
     (case kid (header jwt) of
        None \<Rightarrow> (Inr None, w)
      | Some k \<Rightarrow>
          (if k = [] then (Inr None, w)
           else
             (case getItem (cache w) k of
                Inl e \<Rightarrow> (Inl e, w)
              | Inr (Some cachedKey) \<Rightarrow> (Inr (Some cachedKey), w)
              | Inr None \<Rightarrow>
                  (let url = keys_url this (payload jwt);
                       w1 = w\<lparr>requests := requests w @ [GetKeys url]\<rparr>
                   in (case axios_get_keys env url of
                         Inl error \<Rightarrow>
                           (Inl (throwFormattedError error
                                   (Some ''Error connecting to discovery keys endpoint'')), w1)
                       | Inr data \<Rightarrow>
                           (let w2 = w1\<lparr>cache := cache_keys k (keys data) (cache w1)\<rparr>
                            in (getItem (cache w2) k, w2)))))))"

text \<open>The key material handed to \<^verbatim>\<open>verify\<close>; \<^verbatim>\<open>x5c[0]\<close> of an empty array is undefined.\<close>

definition x5c_0 :: "AzureAdKeyValue \<Rightarrow> string option" where
  "x5c_0 publicKey = (case x5c publicKey of [] \<Rightarrow> None | c # _ \<Rightarrow> Some c)"

definition key_material :: "Jwt \<Rightarrow> AzureAdKeyValue \<Rightarrow> string option" where
  "key_material jwt publicKey =
     (if indexOf (alg (header jwt)) ''RS'' = 0
      then Some (''-----BEGIN CERTIFICATE-----'' @ [CHR 0x0A] @ interpolate (x5c_0 publicKey) @
                 [CHR 0x0A] @ ''-----END CERTIFICATE-----'')
      else x5c_0 publicKey)"

text \<open>
  The first statement of \<^verbatim>\<open>validate\<close>: the metadata document is fetched when the
  instance holds none.
\<close>

definition ensureMetadata ::
  "environment \<Rightarrow> AzureAdTokenValidator \<Rightarrow> world \<Rightarrow> (thrown + AzureAdTokenValidator) \<times> world"
where
  "ensureMetadata env this w =
     (if metadata this = None then loadMetadata env this w else (Inr this, w))"

text \<open>The options object of the call of \<^verbatim>\<open>verify\<close>.\<close>

definition verify_options :: "AzureAdTokenValidator \<Rightarrow> Jwt \<Rightarrow> VerifyOptions" where
  "verify_options this jwt =
     \<lparr>algorithms = [alg (header jwt)],
      verify_audience = audience (options this),
      issuer = validIssuers (options this)\<rparr>"

definition validate ::
  "environment \<Rightarrow> AzureAdTokenValidator \<Rightarrow> string \<Rightarrow> world \<Rightarrow>
   (thrown + AzureAdTokenValidationResult) \<times> AzureAdTokenValidator \<times> world"
where
  "validate env this0 token w0 =
     (case ensureMetadata env this0 w0 of
        (Inl e, w) \<Rightarrow> (Inl e, this0, w)
      | (Inr this, w) \<Rightarrow>
          (let result = \<lparr>isValid = True, validationMessage = None,
                          accessToken = token, decodedAccessToken = None\<rparr>
           in (case decode env token of
                 None \<Rightarrow>
                   (Inr (result\<lparr>isValid := False,
                           validationMessage := Some ''The access token could not be decoded''\<rparr>),
                    this, w)
               | Some jwt \<Rightarrow>
                   (let result1 = result\<lparr>decodedAccessToken := Some jwt\<rparr>
                    in (case getPublicKey env this jwt w of
                          (Inl e, w1) \<Rightarrow> (Inl e, this, w1)
                        | (Inr None, w1) \<Rightarrow>
                            (Inr (result1\<lparr>isValid := False,
                                    validationMessage := Some ''Invalid key''\<rparr>),
                             this, w1)
                        | (Inr (Some publicKey), w1) \<Rightarrow>
                            (let material = key_material jwt publicKey;
                                 vopts = verify_options this jwt;
                                 w2 = w1\<lparr>verify_calls := verify_calls w1 @
                                        [\<lparr>call_token = token, call_key = material,
                                          call_options = vopts\<rparr>]\<rparr>
                             in (case verify env token material vopts of
                                   JsonWebTokenError message \<Rightarrow>
                                     (Inr (result1\<lparr>isValid := False,
                                             validationMessage := Some message\<rparr>),
                                      this, w2)
                                 | OtherException x \<Rightarrow> (Inl (Rethrown x), this, w2)
                                 | Verified \<Rightarrow>
                                     (let tokenValidationResult =
                                            validateAdditionalClaims (payload jwt) (options this)
                                      in if \<not> isValid tokenValidationResult
                                         then (Inr (result1\<lparr>isValid := False,
                                                      validationMessage :=
                                                        validationMessage tokenValidationResult\<rparr>),
                                               this, w2)
                                         else (Inr result1, this, w2)))))))))"


section \<open>The required-scopes rule as the specification words it\<close>

text \<open>
  The specification's reading of the scope claim, for comparison with \<open>scopesAsArray\<close>:
  a space-delimited string split into a set, where an empty or absent claim carries no
  scopes.
\<close>

definition spec_scope_set :: "JwtPayload \<Rightarrow> string set" where
  "spec_scope_set tokenPayload =
     (case scp tokenPayload of
        None \<Rightarrow> {}
      | Some s \<Rightarrow> if s = [] then {} else set (split_space s))"

definition spec_scopes_rule :: "AzureAdTokenValidationOptions \<Rightarrow> JwtPayload \<Rightarrow> bool" where
  "spec_scopes_rule opts tokenPayload =
     (case requiredScopes opts of
        None \<Rightarrow> True
      | Some req \<Rightarrow> req = [] \<or> list_all (\<lambda>s. s \<in> spec_scope_set tokenPayload) req)"

text \<open>\<^verbatim>\<open>Array.prototype.join(" ")\<close>, the inverse that characterises \<open>split_space\<close>.\<close>

fun join_space :: "string list \<Rightarrow> string" where
  "join_space [] = []"
| "join_space [w] = w"
| "join_space (w # w' # ws) = w @ CHR '' '' # join_space (w' # ws)"


section \<open>Example data\<close>

text \<open>
  The configuration, token contents and key-set response of the repository's test
  \<^verbatim>\<open>AzureAdTokenValidator.spec.ts\<close>, with short identifiers, and a second key in the
  response.
\<close>

definition example_options :: AzureAdTokenValidationOptions where
  "example_options =
     \<lparr>tenantId = Some ''tenant-1'', audience = Some ''api://aud'',
      metadataDocumentUri = Some ''/metadata'', allowedApplicationIds = None,
      roles = None, requiredScopes = Some [''Api.Connect''], validIssuers = None\<rparr>"

definition example_payload :: JwtPayload where
  "example_payload =
     \<lparr>tid = Some ''tenant-1'', azp = None, appid = Some ''app-1'', scp = Some ''Api.Connect''\<rparr>"

definition example_key1 :: AzureAdKeyValue where
  "example_key1 = \<lparr>key_kid = ''kid-1'', key_use = ''sig'', x5t = ''kid-1'', x5c = [''secret'']\<rparr>"

definition example_key2 :: AzureAdKeyValue where
  "example_key2 = \<lparr>key_kid = ''kid-2'', key_use = ''sig'', x5t = ''kid-2'', x5c = [''other'']\<rparr>"

definition example_jwt :: "string \<Rightarrow> string \<Rightarrow> JwtPayload \<Rightarrow> Jwt" where
  "example_jwt a k p = \<lparr>header = \<lparr>alg = a, kid = Some k\<rparr>, payload = p, signature = ''sig''\<rparr>"

definition initial_world :: world where
  "initial_world = \<lparr>cache = new_SimpleCache, requests = [], verify_calls = []\<rparr>"

text \<open>
  An instance as the constructor leaves it, and one that has loaded its metadata.
\<close>

definition example_validator :: AzureAdTokenValidator where
  "example_validator = \<lparr>options = example_options, metadata = None\<rparr>"

definition loaded_validator :: AzureAdTokenValidator where
  "loaded_validator = example_validator\<lparr>metadata := Some \<lparr>jwks_uri = ''/keys''\<rparr>\<rparr>"

text \<open>
  An environment whose key endpoint answers with the given keys. The tokens it decodes
  are named after what they are; its \<^verbatim>\<open>verify\<close> accepts the key material \<open>secret\<close>.
\<close>

definition example_decode :: "string \<Rightarrow> Jwt option" where
  "example_decode t =
     (if t = ''valid'' then Some (example_jwt ''HS256'' ''kid-1'' example_payload)
      else if t = ''rsa'' then Some (example_jwt ''RS256'' ''kid-1'' example_payload)
      else if t = ''other-tenant''
        then Some (example_jwt ''HS256'' ''kid-1''
                     (example_payload\<lparr>tid := Some ''tenant-2'', scp := None\<rparr>))
      else if t = ''no-kid''
        then Some \<lparr>header = \<lparr>alg = ''HS256'', kid = None\<rparr>, payload = example_payload,
                    signature = ''sig''\<rparr>
      else if t = ''unexpected'' then Some (example_jwt ''HS256'' ''kid-1'' example_payload)
      else if t = ''reserved''
        then Some (example_jwt ''HS256'' ''hasOwnProperty'' example_payload)
      else None)"

definition example_verify :: "string \<Rightarrow> string option \<Rightarrow> VerifyOptions \<Rightarrow> verify_outcome" where
  "example_verify t material vopts =
     (if t = ''unexpected'' then OtherException ''unexpected''
      else if material = Some ''secret'' then Verified
      else JsonWebTokenError ''invalid signature'')"

definition example_env :: "AzureAdKeyValue list \<Rightarrow> environment" where
  "example_env ks =
     \<lparr>decode = example_decode,
      verify = example_verify,
      axios_get_metadata =
        (\<lambda>uri. if uri = Some ''/metadata'' then Inr \<lparr>jwks_uri = ''/keys''\<rparr>
              else Inl (ErrorObject ''Network Error'')),
      axios_get_keys =
        (\<lambda>url. if url = ''/keys?appid=app-1'' then Inr \<lparr>keys = ks\<rparr>
              else Inl (ErrorObject ''Network Error''))\<rparr>"

text \<open>An environment in which every request fails.\<close>

definition offline_env :: environment where
  "offline_env =
     \<lparr>decode = example_decode,
      verify = example_verify,
      axios_get_metadata = (\<lambda>uri. Inl (ErrorObject ''Network Error'')),
      axios_get_keys = (\<lambda>url. Inl (ErrorObject ''Network Error''))\<rparr>"


section \<open>Properties of the string primitives\<close>

lemma indexOf_from_range: "indexOf_from s pat i = - 1 \<or> int i \<le> indexOf_from s pat i"
  by (induction s arbitrary: i) (auto, force)

lemma indexOf_from_Suc_not_zero: "indexOf_from s pat (Suc i) \<noteq> 0"
  using indexOf_from_range [of s pat "Suc i"] by auto

lemma indexOf_zero_iff_prefix: "indexOf s pat = 0 \<longleftrightarrow> prefix pat s"
  by (cases s) (auto simp: indexOf_def indexOf_from_Suc_not_zero)

lemma array_indexOf_from_member: "0 \<le> array_indexOf_from xs x i \<longleftrightarrow> x \<in> set xs"
  by (induction xs arbitrary: i) auto

lemma array_indexOf_member: "0 \<le> array_indexOf xs x \<longleftrightarrow> x \<in> set xs"
  by (simp add: array_indexOf_def array_indexOf_from_member)


section \<open>The rule engine\<close>

lemma validateRules_loop_find:
  "validateRules_loop v rules r =
     (case find (\<lambda>rule. \<not> validate_rule rule v) rules of
        None \<Rightarrow> r
      | Some rule \<Rightarrow> r\<lparr>isValid := False, validationMessage := Some (invalidMessage rule)\<rparr>)"
  by (induction rules) auto

lemma validateRules_find:
  "validateRules v rules =
     (case find (\<lambda>rule. \<not> validate_rule rule v) rules of
        None \<Rightarrow> \<lparr>isValid = True, validationMessage = None\<rparr>
      | Some rule \<Rightarrow> \<lparr>isValid = False, validationMessage = Some (invalidMessage rule)\<rparr>)"
  by (simp add: validateRules_def validateRules_loop_find split: option.splits)

lemma validateAdditionalClaims_cases:
  "validateAdditionalClaims p opts =
     (if \<not> tenant_rule opts p
      then \<lparr>isValid = False, validationMessage = Some ''tenantId does not match''\<rparr>
      else if \<not> application_rule opts p
      then \<lparr>isValid = False,
            validationMessage = Some ''authenticated applicationId not in allowed list''\<rparr>
      else if \<not> scopes_rule opts p
      then \<lparr>isValid = False, validationMessage = Some ''required scopes missing''\<rparr>
      else \<lparr>isValid = True, validationMessage = None\<rparr>)"
  by (simp add: validateAdditionalClaims_def validateRules_find validators_def)

text \<open>What the first two rules require.\<close>

lemma tenant_rule_iff:
  "tenant_rule opts p \<longleftrightarrow> (\<exists>t. t \<noteq> [] \<and> tid p = Some t \<and> tenantId opts = Some t)"
  by (cases "tid p") (auto simp: tenant_rule_def truthy_def)

lemma application_rule_iff:
  "application_rule opts p \<longleftrightarrow>
     (case allowedApplicationIds opts of
        None \<Rightarrow> True
      | Some ids \<Rightarrow>
          ids = [] \<or>
          (\<exists>a. a \<noteq> [] \<and> a \<in> set ids \<and>
               (if azp p = None \<or> azp p = Some [] then appid p = Some a else azp p = Some a)))"
  by (cases "azp p"; cases "appid p")
     (auto simp: application_rule_def js_or_def truthy_def array_indexOf_member
        split: option.splits)

lemma split_space_not_empty: "split_space s \<noteq> []"
  by (induction s) auto

lemma split_space_no_space: "w \<in> set (split_space s) \<Longrightarrow> CHR '' '' \<notin> set w"
proof (induction s arbitrary: w)
  case Nil
  then show ?case by simp
next
  case (Cons c cs)
  obtain h t where ht: "split_space cs = h # t"
    using split_space_not_empty [of cs] by (cases "split_space cs") auto
  show ?case
  proof (cases "c = CHR '' ''")
    case True
    with Cons show ?thesis by auto
  next
    case False
    with Cons.prems ht have "w = c # h \<or> w \<in> set t" by auto
    then show ?thesis
    proof
      assume "w = c # h"
      moreover have "CHR '' '' \<notin> set h" using Cons.IH [of h] ht by simp
      ultimately show ?thesis using False by auto
    next
      assume "w \<in> set t"
      then show ?thesis using Cons.IH [of w] ht by simp
    qed
  qed
qed

lemma join_space_Cons: "ws \<noteq> [] \<Longrightarrow> join_space (w # ws) = w @ CHR '' '' # join_space ws"
  by (cases ws) auto

lemma join_split_space: "join_space (split_space s) = s"
proof (induction s)
  case Nil
  then show ?case by simp
next
  case (Cons c cs)
  obtain h t where ht: "split_space cs = h # t"
    using split_space_not_empty [of cs] by (cases "split_space cs") auto
  show ?case
  proof (cases "c = CHR '' ''")
    case True
    then show ?thesis using Cons by (simp add: join_space_Cons split_space_not_empty)
  next
    case False
    have "join_space ((c # h) # t) = c # join_space (h # t)"
      by (cases t) auto
    then show ?thesis using False Cons ht by simp
  qed
qed

lemma scopes_rule_iff:
  "scopes_rule opts p \<longleftrightarrow>
     (case requiredScopes opts of
        None \<Rightarrow> True
      | Some req \<Rightarrow>
          req = [] \<or>
          (\<forall>s \<in> set req. s \<in> set (case scp p of None \<Rightarrow> [] | Some t \<Rightarrow> split_space t)))"
  by (auto simp: scopes_rule_def every_def array_includes_def scopesAsArray_def list_all_iff
        split: option.splits)

lemma scopes_rule_spec:
  "(case requiredScopes opts of None \<Rightarrow> True | Some req \<Rightarrow> [] \<notin> set req) \<Longrightarrow>
   scopes_rule opts p = spec_scopes_rule opts p"
proof (cases "requiredScopes opts")
  case None
  then show ?thesis by (simp add: scopes_rule_iff spec_scopes_rule_def)
next
  case (Some req)
  assume "case requiredScopes opts of None \<Rightarrow> True | Some req \<Rightarrow> [] \<notin> set req"
  with Some have ne: "[] \<notin> set req" by simp
  show ?thesis
  proof (cases "scp p = Some []")
    case True
    have "(\<forall>s\<in>set req. s = []) \<longleftrightarrow> req = []"
      using ne by (cases req) auto
    then show ?thesis
      using Some True
      by (auto simp: scopes_rule_iff spec_scopes_rule_def spec_scope_set_def list_all_iff)
  next
    case False
    then show ?thesis
      using Some
      by (auto simp: scopes_rule_iff spec_scopes_rule_def spec_scope_set_def list_all_iff
            split: option.splits)
  qed
qed

text \<open>
  Claim C5. The claims engine evaluates exactly three rules, in the order tenant match,
  application allow-list, required scopes: it is \<open>validateRules\<close> on that list;
  \<open>validateRules\<close> reports the message of the first rule that fails, whatever rules
  follow it, and no message when all pass. A payload that fails both the tenant rule
  and the scopes rule gets only the message of the tenant rule.
\<close>

theorem claims_rules_ordered_first_failure:
  "map invalidMessage (validators opts) =
     [''tenantId does not match'', ''authenticated applicationId not in allowed list'',
      ''required scopes missing''] \<and>
   map validate_rule (validators opts) =
     [tenant_rule opts, application_rule opts, scopes_rule opts] \<and>
   validateAdditionalClaims p opts = validateRules p (validators opts) \<and>
   (list_all (\<lambda>rule. validate_rule rule v) passing \<and> \<not> validate_rule failing v \<longrightarrow>
      validateRules v (passing @ failing # rest) =
        \<lparr>isValid = False, validationMessage = Some (invalidMessage failing)\<rparr>) \<and>
   (list_all (\<lambda>rule. validate_rule rule v) rules \<longrightarrow>
      validateRules v rules = \<lparr>isValid = True, validationMessage = None\<rparr>) \<and>
   (\<not> tenant_rule opts p \<and> \<not> scopes_rule opts p \<longrightarrow>
      validateAdditionalClaims p opts =
        \<lparr>isValid = False, validationMessage = Some ''tenantId does not match''\<rparr>)"
proof -
  have first: "find (\<lambda>rule. \<not> validate_rule rule v) (passing @ failing # rest) = Some failing"
    if "list_all (\<lambda>rule. validate_rule rule v) passing" "\<not> validate_rule failing v"
    using that by (induction passing) auto
  have none: "find (\<lambda>rule. \<not> validate_rule rule v) rules = None"
    if "list_all (\<lambda>rule. validate_rule rule v) rules"
    using that by (induction rules) auto
  have "validateAdditionalClaims p opts = validateRules p (validators opts)"
    by (simp add: validateAdditionalClaims_def)
  then show ?thesis
    by (simp add: validators_def validateAdditionalClaims_cases validateRules_find first none)
qed

theorem claims_rules_ordered_first_failure_witness:
  "validateAdditionalClaims
     (example_payload\<lparr>tid := Some ''tenant-2'', scp := Some ''''\<rparr>) example_options =
     \<lparr>isValid = False, validationMessage = Some ''tenantId does not match''\<rparr> \<and>
   \<not> scopes_rule example_options (example_payload\<lparr>tid := Some ''tenant-2'', scp := Some ''''\<rparr>) \<and>
   validateRules example_payload (validators example_options) =
     \<lparr>isValid = True, validationMessage = None\<rparr>"
proof -
  let ?p = "example_payload\<lparr>tid := Some ''tenant-2'', scp := Some ''''\<rparr>"
  have a: "\<not> tenant_rule example_options ?p"
    by (simp add: tenant_rule_def example_options_def example_payload_def)
  have b: "\<not> scopes_rule example_options ?p"
    by (simp add: scopes_rule_def example_options_def example_payload_def every_def
          array_includes_def scopesAsArray_def)
  have c: "list_all (\<lambda>rule. validate_rule rule example_payload) (validators example_options)"
    by (simp add: validators_def tenant_rule_def application_rule_def scopes_rule_def
          example_options_def example_payload_def truthy_def every_def array_includes_def
          scopesAsArray_def)
  show ?thesis
    using claims_rules_ordered_first_failure
            [where opts = example_options and p = ?p and v = example_payload
               and rules = "validators example_options"] a b c
    by blast
qed

text \<open>
  Claim C7, as amended. The required-scopes rule is the third rule and its message is
  "required scopes missing". It passes when the required-scope list is absent or
  empty; otherwise it passes exactly when every required scope is among the pieces of
  the scope claim between single spaces, where an absent claim has no piece and the
  empty claim has one piece, the empty string. It agrees with the specification's
  reading whenever no required scope is the empty string. When the two earlier rules
  pass, the engine's result is that of this rule.
\<close>

theorem required_scopes_rule:
  "validators opts ! 2 =
     \<lparr>validate_rule = scopes_rule opts, invalidMessage = ''required scopes missing''\<rparr> \<and>
   (scopes_rule opts p \<longleftrightarrow>
      (case requiredScopes opts of
         None \<Rightarrow> True
       | Some req \<Rightarrow>
           req = [] \<or>
           (\<forall>s \<in> set req. s \<in> set (case scp p of None \<Rightarrow> [] | Some t \<Rightarrow> split_space t)))) \<and>
   split_space [] = [[]] \<and>
   join_space (split_space t) = t \<and>
   (\<forall>piece \<in> set (split_space t). CHR '' '' \<notin> set piece) \<and>
   ((case requiredScopes opts of None \<Rightarrow> True | Some req \<Rightarrow> [] \<notin> set req) \<longrightarrow>
      scopes_rule opts p = spec_scopes_rule opts p) \<and>
   (tenant_rule opts p \<and> application_rule opts p \<longrightarrow>
      validateAdditionalClaims p opts =
        (if scopes_rule opts p then \<lparr>isValid = True, validationMessage = None\<rparr>
         else \<lparr>isValid = False, validationMessage = Some ''required scopes missing''\<rparr>))"
proof -
  have "validators opts ! 2 =
     \<lparr>validate_rule = scopes_rule opts, invalidMessage = ''required scopes missing''\<rparr>"
    by (simp add: validators_def)
  moreover have "\<forall>piece \<in> set (split_space t). CHR '' '' \<notin> set piece"
    using split_space_no_space by blast
  moreover note scopes_rule_iff [of opts p] join_split_space [of t] scopes_rule_spec [of opts p]
    validateAdditionalClaims_cases [of p opts]
  ultimately show ?thesis by simp
qed

theorem required_scopes_rule_witness:
  "scopes_rule example_options example_payload \<and>
   \<not> scopes_rule example_options (example_payload\<lparr>scp := Some ''''\<rparr>) \<and>
   \<not> scopes_rule example_options (example_payload\<lparr>scp := None\<rparr>) \<and>
   spec_scopes_rule example_options example_payload \<and>
   validateAdditionalClaims (example_payload\<lparr>scp := Some ''''\<rparr>) example_options =
     \<lparr>isValid = False, validationMessage = Some ''required scopes missing''\<rparr>"
proof -
  have req: "requiredScopes example_options = Some [''Api.Connect'']"
    by (simp add: example_options_def)
  have scps: "scp example_payload = Some ''Api.Connect''"
    "scp (example_payload\<lparr>scp := Some ''''\<rparr>) = Some ''''"
    "scp (example_payload\<lparr>scp := None\<rparr>) = None"
    by (simp_all add: example_payload_def)
  have pass: "tenant_rule example_options (example_payload\<lparr>scp := Some ''''\<rparr>)"
    "application_rule example_options (example_payload\<lparr>scp := Some ''''\<rparr>)"
    by (simp_all add: tenant_rule_def application_rule_def example_options_def
          example_payload_def truthy_def)
  show ?thesis
    using required_scopes_rule [of example_options example_payload]
      required_scopes_rule [of example_options "example_payload\<lparr>scp := Some ''''\<rparr>"]
      required_scopes_rule [of example_options "example_payload\<lparr>scp := None\<rparr>"]
      req scps pass
    by auto
qed

theorem required_scopes_rule_empty_claim_counterexample:
  "scopes_rule (example_options\<lparr>requiredScopes := Some ['''']\<rparr>)
     (example_payload\<lparr>scp := Some ''''\<rparr>) \<and>
   \<not> spec_scopes_rule (example_options\<lparr>requiredScopes := Some ['''']\<rparr>)
     (example_payload\<lparr>scp := Some ''''\<rparr>)"
  by (simp add: scopes_rule_def spec_scopes_rule_def spec_scope_set_def every_def
        array_includes_def scopesAsArray_def example_options_def example_payload_def)


section \<open>Construction\<close>

text \<open>
  Claim C2, as amended. Construction fails exactly when \<open>tenantId\<close> or \<open>audience\<close> is
  missing or empty, with an error that names the first such field; otherwise it
  succeeds, whatever \<open>metadataDocumentUri\<close> is, and the new instance holds no metadata.
  The constructor is a function of the options alone: it cannot reach the network.
\<close>


theorem constructor_requires_tenantId_and_audience:
  \<open>(isl (constructor opts) \<longleftrightarrow>
      tenantId opts = None \<or> tenantId opts = Some [] \<or>
      audience opts = None \<or> audience opts = Some []) \<and>
   (tenantId opts = None \<or> tenantId opts = Some [] \<longrightarrow>
      constructor opts = Inl (Error ''"tenantId" value was not provided'')) \<and>
   ((\<exists>t. tenantId opts = Some t \<and> t \<noteq> []) \<and> (audience opts = None \<or> audience opts = Some []) \<longrightarrow>
      constructor opts = Inl (Error ''"audience" value was not provided'')) \<and>
   ((\<exists>t. tenantId opts = Some t \<and> t \<noteq> []) \<and> (\<exists>a. audience opts = Some a \<and> a \<noteq> []) \<longrightarrow>
      constructor opts = Inr \<lparr>options = opts, metadata = None\<rparr>)\<close>
  by (cases "tenantId opts"; cases "audience opts") (auto simp: constructor_def truthy_def)


theorem constructor_requires_tenantId_and_audience_witness:
  \<open>constructor (example_options\<lparr>tenantId := None\<rparr>) =
     Inl (Error ''"tenantId" value was not provided'') \<and>
   constructor (example_options\<lparr>audience := Some ''''\<rparr>) =
     Inl (Error ''"audience" value was not provided'') \<and>
   constructor example_options = Inr \<lparr>options = example_options, metadata = None\<rparr>\<close>
  using constructor_requires_tenantId_and_audience [of "example_options\<lparr>tenantId := None\<rparr>"]
    constructor_requires_tenantId_and_audience [of "example_options\<lparr>audience := Some ''''\<rparr>"]
    constructor_requires_tenantId_and_audience [of example_options]
  by (simp add: example_options_def)


theorem constructor_missing_metadataDocumentUri_counterexample:
  "metadataDocumentUri (example_options\<lparr>metadataDocumentUri := None\<rparr>) = None \<and>
   constructor (example_options\<lparr>metadataDocumentUri := None\<rparr>) =
     Inr \<lparr>options = example_options\<lparr>metadataDocumentUri := None\<rparr>, metadata = None\<rparr>"
  by (simp add: constructor_def truthy_def example_options_def)


section \<open>Key resolution\<close>

lemma cache_keys_own:
  "own (cache_keys k ks c) =
     (if ks = [] \<or> k = ''__proto__'' then own c else (own c)(k \<mapsto> last ks))"
  by (induction ks arbitrary: c) (auto simp: setItem_def)


lemma getItem_own:
  "own c ''hasOwnProperty'' = None \<Longrightarrow> getItem c key = Inr (own c key)"
  by (simp add: getItem_def)

lemma getItem_throws:
  "own c ''hasOwnProperty'' = Some v \<Longrightarrow>
   getItem c key = Inl (TypeError ''this.memoryCache.hasOwnProperty is not a function'')"
  by (simp add: getItem_def)


lemma getItem_Inl:
  "getItem c key = Inl e \<Longrightarrow>
   own c ''hasOwnProperty'' \<noteq> None \<and>
   e = TypeError ''this.memoryCache.hasOwnProperty is not a function''"
  by (auto simp: getItem_def split: option.splits)

lemma getPublicKey_no_kid:
  "kid (header jwt) = None \<or> kid (header jwt) = Some [] \<Longrightarrow>
   getPublicKey env this jwt w = (Inr None, w)"
  by (auto simp: getPublicKey_def)

lemma getPublicKey_hit:
  "kid (header jwt) = Some k \<Longrightarrow> k \<noteq> [] \<Longrightarrow> getItem (cache w) k = Inr (Some cachedKey) \<Longrightarrow>
   getPublicKey env this jwt w = (Inr (Some cachedKey), w)"
  by (simp add: getPublicKey_def)

lemma getPublicKey_lookup_throws:
  "kid (header jwt) = Some k \<Longrightarrow> k \<noteq> [] \<Longrightarrow> getItem (cache w) k = Inl e \<Longrightarrow>
   getPublicKey env this jwt w = (Inl e, w)"
  by (simp add: getPublicKey_def)

lemma getPublicKey_miss_failure:
  "kid (header jwt) = Some k \<Longrightarrow> k \<noteq> [] \<Longrightarrow> getItem (cache w) k = Inr None \<Longrightarrow>
   axios_get_keys env (keys_url this (payload jwt)) = Inl error \<Longrightarrow>
   getPublicKey env this jwt w =
     (Inl (throwFormattedError error (Some ''Error connecting to discovery keys endpoint'')),
      w\<lparr>requests := requests w @ [GetKeys (keys_url this (payload jwt))]\<rparr>)"
  by (simp add: getPublicKey_def Let_def)

lemma getPublicKey_miss_success:
  "kid (header jwt) = Some k \<Longrightarrow> k \<noteq> [] \<Longrightarrow> getItem (cache w) k = Inr None \<Longrightarrow>
   axios_get_keys env (keys_url this (payload jwt)) = Inr data \<Longrightarrow>
   getPublicKey env this jwt w =
     (getItem (cache_keys k (keys data) (cache w)) k,
      w\<lparr>requests := requests w @ [GetKeys (keys_url this (payload jwt))],
        cache := cache_keys k (keys data) (cache w)\<rparr>)"
  by (simp add: getPublicKey_def Let_def)

lemma getPublicKey_result_cached:
  "getPublicKey env this jwt w = (Inr (Some key), w1) \<Longrightarrow>
   \<exists>k. kid (header jwt) = Some k \<and> k \<noteq> [] \<and> getItem (cache w1) k = Inr (Some key)"
  by (auto simp: getPublicKey_def Let_def split: option.splits if_splits sum.splits)

lemma getPublicKey_empty_kid_not_cached:
  "own (cache w) [] = None \<Longrightarrow> own (cache (snd (getPublicKey env this jwt w))) [] = None"
  by (auto simp: getPublicKey_def Let_def cache_keys_own
        split: option.splits if_splits sum.splits)

lemma getPublicKey_throws:
  "getPublicKey env this jwt w = (Inl e, w1) \<Longrightarrow>
   e = TypeError ''this.memoryCache.hasOwnProperty is not a function'' \<or>
   (\<exists>error. axios_get_keys env (keys_url this (payload jwt)) = Inl error \<and>
      e = throwFormattedError error (Some ''Error connecting to discovery keys endpoint''))"
  by (auto simp: getPublicKey_def Let_def split: option.splits if_splits sum.splits
        dest: getItem_Inl)

lemma getPublicKey_verify_calls:
  "verify_calls (snd (getPublicKey env this jwt w)) = verify_calls w"
  by (auto simp: getPublicKey_def Let_def split: option.splits if_splits sum.splits)

text \<open>
  A cache hit, where the lookup does not throw: the cached key is returned and the
  world stays as it is, so that no request is sent; and a resolution that returned a
  key is followed by such a hit for the same identifier.
\<close>

lemma getPublicKey_cache_hit:
  assumes "own (cache w) ''hasOwnProperty'' = None" and "own (cache w) [] = None"
    and "kid (header jwt) = Some k" and "own (cache w) k = Some cachedKey"
  shows "getPublicKey env this jwt w = (Inr (Some cachedKey), w)"
proof -
  from assms have "k \<noteq> []" by auto
  with assms show ?thesis by (simp add: getPublicKey_hit getItem_own)
qed

lemma getPublicKey_again:
  assumes "getPublicKey env1 this1 jwt1 w = (Inr (Some key), w1)"
    and "kid (header jwt2) = kid (header jwt1)"
  shows "getPublicKey env2 this2 jwt2 w1 = (Inr (Some key), w1)"
proof -
  from getPublicKey_result_cached [OF assms(1)]
  obtain k where "kid (header jwt1) = Some k" "k \<noteq> []" "getItem (cache w1) k = Inr (Some key)"
    by blast
  with assms(2) show ?thesis by (simp add: getPublicKey_hit)
qed

lemma example_keys_url:
  "keys_url loaded_validator example_payload = ''/keys?appid=app-1''"
  by (simp add: keys_url_def loaded_validator_def example_validator_def example_payload_def
        interpolate_def js_or_def truthy_def)

text \<open>
  Claim C8 fails on the code. A token with key identifier \<open>kid-1\<close> is resolved and its
  key cached. A token with key identifier \<open>hasOwnProperty\<close> follows: its resolution
  stores the fetched key under that name and then throws. From then on \<open>kid-1\<close> is
  still in the cache, but resolving it throws a \<^verbatim>\<open>TypeError\<close> instead of returning the
  cached key; no request is sent.
\<close>

theorem getPublicKey_cached_key_not_returned:
  "getPublicKey (example_env [example_key1]) loaded_validator
     (example_jwt ''HS256'' ''kid-1'' example_payload) initial_world =
     (Inr (Some example_key1),
      \<lparr>cache = \<lparr>own = [''kid-1'' \<mapsto> example_key1], prototype = None\<rparr>,
       requests = [GetKeys ''/keys?appid=app-1''], verify_calls = []\<rparr>) \<and>
   getPublicKey (example_env [example_key1]) loaded_validator
     (example_jwt ''HS256'' ''hasOwnProperty'' example_payload)
     \<lparr>cache = \<lparr>own = [''kid-1'' \<mapsto> example_key1], prototype = None\<rparr>,
      requests = [GetKeys ''/keys?appid=app-1''], verify_calls = []\<rparr> =
     (Inl (TypeError ''this.memoryCache.hasOwnProperty is not a function''),
      \<lparr>cache = \<lparr>own = [''kid-1'' \<mapsto> example_key1, ''hasOwnProperty'' \<mapsto> example_key1],
                prototype = None\<rparr>,
       requests = [GetKeys ''/keys?appid=app-1'', GetKeys ''/keys?appid=app-1''],
       verify_calls = []\<rparr>) \<and>
   own \<lparr>own = [''kid-1'' \<mapsto> example_key1, ''hasOwnProperty'' \<mapsto> example_key1],
        prototype = None\<rparr> ''kid-1'' = Some example_key1 \<and>
   getPublicKey offline_env loaded_validator
     (example_jwt ''HS256'' ''kid-1'' example_payload)
     \<lparr>cache = \<lparr>own = [''kid-1'' \<mapsto> example_key1, ''hasOwnProperty'' \<mapsto> example_key1],
               prototype = None\<rparr>,
      requests = [GetKeys ''/keys?appid=app-1'', GetKeys ''/keys?appid=app-1''],
      verify_calls = []\<rparr> =
     (Inl (TypeError ''this.memoryCache.hasOwnProperty is not a function''),
      \<lparr>cache = \<lparr>own = [''kid-1'' \<mapsto> example_key1, ''hasOwnProperty'' \<mapsto> example_key1],
                prototype = None\<rparr>,
       requests = [GetKeys ''/keys?appid=app-1'', GetKeys ''/keys?appid=app-1''],
       verify_calls = []\<rparr>)"
  by (simp add: getPublicKey_def getItem_def setItem_def Let_def example_keys_url
        example_jwt_def example_env_def initial_world_def new_SimpleCache_def)




text \<open>
  Claim C1 fails on the code. A token with key identifier \<open>kid-1\<close> meets the empty
  cache, and the endpoint answers with two keys, \<open>kid-1\<close> and \<open>kid-2\<close>. Afterwards the
  cache holds one entry, the second key under \<open>kid-1\<close>; \<open>kid-2\<close> is not cached, and
  resolving it sends a second request.
\<close>

theorem getPublicKey_sibling_key_not_cached:
  "getPublicKey (example_env [example_key1, example_key2]) loaded_validator
     (example_jwt ''HS256'' ''kid-1'' example_payload) initial_world =
     (Inr (Some example_key2),
      \<lparr>cache = \<lparr>own = [''kid-1'' \<mapsto> example_key2], prototype = None\<rparr>,
       requests = [GetKeys ''/keys?appid=app-1''], verify_calls = []\<rparr>) \<and>
   key_kid example_key2 = ''kid-2'' \<and>
   getItem \<lparr>own = [''kid-1'' \<mapsto> example_key2], prototype = None\<rparr> ''kid-2'' = Inr None \<and>
   requests (snd (getPublicKey (example_env [example_key1, example_key2]) loaded_validator
                    (example_jwt ''HS256'' ''kid-2'' example_payload)
                    \<lparr>cache = \<lparr>own = [''kid-1'' \<mapsto> example_key2], prototype = None\<rparr>,
                     requests = [GetKeys ''/keys?appid=app-1''], verify_calls = []\<rparr>)) =
     [GetKeys ''/keys?appid=app-1'', GetKeys ''/keys?appid=app-1'']"
  by (simp add: getPublicKey_def getItem_def setItem_def Let_def example_keys_url
        example_jwt_def example_env_def initial_world_def example_key2_def
        new_SimpleCache_def)


section \<open>The validation pipeline\<close>

lemma validateRules_message_iff:
  "validationMessage (validateRules v rules) \<noteq> None \<longleftrightarrow> \<not> isValid (validateRules v rules)"
  by (simp add: validateRules_find split: option.splits)

lemma ensureMetadata_options:
  "ensureMetadata env this0 w0 = (Inr this, w) \<Longrightarrow> options this = options this0"
  by (auto simp: ensureMetadata_def loadMetadata_def Let_def split: if_splits sum.splits)

lemma ensureMetadata_world:
  "cache (snd (ensureMetadata env this0 w0)) = cache w0 \<and>
   verify_calls (snd (ensureMetadata env this0 w0)) = verify_calls w0"
  by (auto simp: ensureMetadata_def loadMetadata_def Let_def split: if_splits sum.splits)

lemma ensureMetadata_throws:
  "ensureMetadata env this0 w0 = (Inl e, w) \<Longrightarrow>
   metadata this0 = None \<and>
   (\<exists>error. axios_get_metadata env (metadataDocumentUri (options this0)) = Inl error \<and>
      e = throwFormattedError error None)"
  by (auto simp: ensureMetadata_def loadMetadata_def Let_def split: if_splits sum.splits)

lemma throwFormattedError_is_Error: "\<exists>message. throwFormattedError error d = Error message"
  by (simp add: throwFormattedError_def split: caught.splits option.splits)

lemma validate_metadata_throws:
  "ensureMetadata env this0 w0 = (Inl e, w) \<Longrightarrow> validate env this0 token w0 = (Inl e, this0, w)"
  by (simp add: validate_def)

lemma validate_not_decoded:
  "ensureMetadata env this0 w0 = (Inr this, w) \<Longrightarrow> decode env token = None \<Longrightarrow>
   validate env this0 token w0 =
     (Inr \<lparr>isValid = False,
           validationMessage = Some ''The access token could not be decoded'',
           accessToken = token, decodedAccessToken = None\<rparr>, this, w)"
  by (simp add: validate_def)

lemma validate_key_throws:
  "ensureMetadata env this0 w0 = (Inr this, w) \<Longrightarrow> decode env token = Some jwt \<Longrightarrow>
   getPublicKey env this jwt w = (Inl e, w1) \<Longrightarrow>
   validate env this0 token w0 = (Inl e, this, w1)"
  by (simp add: validate_def)

lemma validate_no_key:
  "ensureMetadata env this0 w0 = (Inr this, w) \<Longrightarrow> decode env token = Some jwt \<Longrightarrow>
   getPublicKey env this jwt w = (Inr None, w1) \<Longrightarrow>
   validate env this0 token w0 =
     (Inr \<lparr>isValid = False, validationMessage = Some ''Invalid key'',
           accessToken = token, decodedAccessToken = Some jwt\<rparr>, this, w1)"
  by (simp add: validate_def)

lemma validate_verify:
  assumes "ensureMetadata env this0 w0 = (Inr this, w)" and "decode env token = Some jwt"
    and "getPublicKey env this jwt w = (Inr (Some publicKey), w1)"
  shows "validate env this0 token w0 =
     ((case verify env token (key_material jwt publicKey) (verify_options this jwt) of
         JsonWebTokenError message \<Rightarrow>
           Inr \<lparr>isValid = False, validationMessage = Some message,
                accessToken = token, decodedAccessToken = Some jwt\<rparr>
       | OtherException x \<Rightarrow> Inl (Rethrown x)
       | Verified \<Rightarrow>
           Inr \<lparr>isValid = isValid (validateAdditionalClaims (payload jwt) (options this)),
                validationMessage =
                  validationMessage (validateAdditionalClaims (payload jwt) (options this)),
                accessToken = token, decodedAccessToken = Some jwt\<rparr>),
      this,
      w1\<lparr>verify_calls := verify_calls w1 @
           [\<lparr>call_token = token, call_key = key_material jwt publicKey,
             call_options = verify_options this jwt\<rparr>]\<rparr>)"
proof -
  have "validationMessage (validateAdditionalClaims (payload jwt) (options this)) = None"
    if "isValid (validateAdditionalClaims (payload jwt) (options this))"
    using that validateRules_message_iff [of "payload jwt" "validators (options this)"]
    by (simp add: validateAdditionalClaims_def)
  with assms show ?thesis
    by (simp add: validate_def Let_def split: verify_outcome.splits)
qed

text \<open>The stages of \<open>validate\<close>, as one case distinction.\<close>

lemma validate_stages:
  obtains
    (metadata_throws) e w where "ensureMetadata env this0 w0 = (Inl e, w)"
  | (not_decoded) this w where "ensureMetadata env this0 w0 = (Inr this, w)"
      "decode env token = None"
  | (key_throws) this w jwt e w1 where "ensureMetadata env this0 w0 = (Inr this, w)"
      "decode env token = Some jwt" "getPublicKey env this jwt w = (Inl e, w1)"
  | (no_key) this w jwt w1 where "ensureMetadata env this0 w0 = (Inr this, w)"
      "decode env token = Some jwt" "getPublicKey env this jwt w = (Inr None, w1)"
  | (verify) this w jwt publicKey w1 where "ensureMetadata env this0 w0 = (Inr this, w)"
      "decode env token = Some jwt" "getPublicKey env this jwt w = (Inr (Some publicKey), w1)"
proof -
  obtain r w where em: "ensureMetadata env this0 w0 = (r, w)" by (cases "ensureMetadata env this0 w0")
  show thesis
  proof (cases r)
    case (Inl e)
    with em show thesis using metadata_throws by simp
  next
    case (Inr this)
    show thesis
    proof (cases "decode env token")
      case None
      with em Inr show thesis using not_decoded by simp
    next
      case (Some jwt)
      obtain k w1 where gp: "getPublicKey env this jwt w = (k, w1)"
        by (cases "getPublicKey env this jwt w")
      show thesis
      proof (cases k)
        case (Inl e)
        with em Inr Some gp show thesis using key_throws by simp
      next
        case inr: (Inr found)
        show thesis
        proof (cases found)
          case None
          with em Inr Some gp inr show thesis using no_key by simp
        next
          case some: (Some publicKey)
          with em Inr Some gp inr show thesis using verify by simp
        qed
      qed
    qed
  qed
qed

lemma validate_verify_calls:
  assumes "ensureMetadata env this0 w0 = (Inr this, w)" and "decode env token = Some jwt"
    and "getPublicKey env this jwt w = (Inr (Some publicKey), w1)"
  shows "verify_calls (snd (snd (validate env this0 token w0))) =
     verify_calls w0 @
       [\<lparr>call_token = token, call_key = key_material jwt publicKey,
         call_options =
           \<lparr>algorithms = [alg (header jwt)], verify_audience = audience (options this0),
            issuer = validIssuers (options this0)\<rparr>\<rparr>]"
proof -
  have "verify_calls w = verify_calls w0"
    using ensureMetadata_world [of env this0 w0] assms(1) by simp
  moreover have "verify_calls w1 = verify_calls w"
    using getPublicKey_verify_calls [of env this jwt w] assms(3) by simp
  moreover have "options this = options this0"
    using assms(1) by (rule ensureMetadata_options)
  ultimately show ?thesis
    by (simp add: validate_verify [OF assms] verify_options_def)
qed

lemma validate_verify_calls_unchanged:
  assumes "\<not> (\<exists>this w jwt publicKey w1. ensureMetadata env this0 w0 = (Inr this, w) \<and>
      decode env token = Some jwt \<and> getPublicKey env this jwt w = (Inr (Some publicKey), w1))"
  shows "verify_calls (snd (snd (validate env this0 token w0))) = verify_calls w0"
proof (cases rule: validate_stages [where env = env and ?this0.0 = this0 and ?w0.0 = w0 and token = token])
  case (metadata_throws e w)
  then show ?thesis
    using ensureMetadata_world [of env this0 w0] by (simp add: validate_metadata_throws)
next
  case (not_decoded this w)
  then show ?thesis
    using ensureMetadata_world [of env this0 w0] by (simp add: validate_not_decoded)
next
  case (key_throws this w jwt e w1)
  then show ?thesis
    using ensureMetadata_world [of env this0 w0] getPublicKey_verify_calls [of env this jwt w]
    by (simp add: validate_key_throws)
next
  case (no_key this w jwt w1)
  then show ?thesis
    using ensureMetadata_world [of env this0 w0] getPublicKey_verify_calls [of env this jwt w]
    by (simp add: validate_no_key)
next
  case (verify this w jwt publicKey w1)
  with assms show ?thesis by blast
qed

lemma key_material_first_certificate:
  "x5c publicKey = certificate # others \<Longrightarrow>
   key_material jwt publicKey =
     Some (if prefix ''RS'' (alg (header jwt))
           then ''-----BEGIN CERTIFICATE-----'' @ [CHR 0x0A] @ certificate @ [CHR 0x0A] @
                ''-----END CERTIFICATE-----''
           else certificate)"
  by (simp add: key_material_def indexOf_zero_iff_prefix x5c_0_def interpolate_def)

lemma validateAdditionalClaims_message:
  "\<not> isValid (validateAdditionalClaims p opts) \<Longrightarrow>
   validationMessage (validateAdditionalClaims p opts) \<in>
     {Some ''tenantId does not match'',
      Some ''authenticated applicationId not in allowed list'',
      Some ''required scopes missing''}"
  by (simp add: validateAdditionalClaims_cases split: if_splits)

text \<open>
  What \<open>validate\<close> throws: the formatted error of a failed metadata request or of a
  failed key request, the \<^verbatim>\<open>TypeError\<close> of a cache lookup, or what the verifier threw
  when that is not a \<^verbatim>\<open>JsonWebTokenError\<close>.
\<close>

lemma validate_throws:
  assumes "fst (validate env this0 token w0) = Inl e"
  shows "(metadata this0 = None \<and>
      (\<exists>error. axios_get_metadata env (metadataDocumentUri (options this0)) = Inl error \<and>
         e = throwFormattedError error None)) \<or>
     (\<exists>this w jwt error.
        ensureMetadata env this0 w0 = (Inr this, w) \<and> decode env token = Some jwt \<and>
        axios_get_keys env (keys_url this (payload jwt)) = Inl error \<and>
        e = throwFormattedError error (Some ''Error connecting to discovery keys endpoint'')) \<or>
     e = TypeError ''this.memoryCache.hasOwnProperty is not a function'' \<or>
     (\<exists>this w jwt publicKey w1 x.
        ensureMetadata env this0 w0 = (Inr this, w) \<and> decode env token = Some jwt \<and>
        getPublicKey env this jwt w = (Inr (Some publicKey), w1) \<and>
        verify env token (key_material jwt publicKey) (verify_options this jwt) =
          OtherException x \<and>
        e = Rethrown x)"
proof (cases rule: validate_stages [where env = env and ?this0.0 = this0 and ?w0.0 = w0 and token = token])
  case (metadata_throws e' w)
  with assms have "e' = e" by (simp add: validate_metadata_throws)
  with metadata_throws have "ensureMetadata env this0 w0 = (Inl e, w)" by simp
  from ensureMetadata_throws [OF this] show ?thesis by simp
next
  case (not_decoded this w)
  with assms show ?thesis by (simp add: validate_not_decoded)
next
  case (key_throws this w jwt e' w1)
  with assms have e: "e' = e" by (simp add: validate_key_throws)
  from getPublicKey_throws [OF key_throws(3)]
  consider "e' = TypeError ''this.memoryCache.hasOwnProperty is not a function''"
    | error where "axios_get_keys env (keys_url this (payload jwt)) = Inl error"
        "e' = throwFormattedError error (Some ''Error connecting to discovery keys endpoint'')"
    by blast
  then show ?thesis
  proof cases
    case 1
    with e show ?thesis by simp
  next
    case 2
    with key_throws(1,2) e have "\<exists>this w jwt error.
        ensureMetadata env this0 w0 = (Inr this, w) \<and> decode env token = Some jwt \<and>
        axios_get_keys env (keys_url this (payload jwt)) = Inl error \<and>
        e = throwFormattedError error (Some ''Error connecting to discovery keys endpoint'')"
      by (intro exI [of _ this] exI [of _ w] exI [of _ jwt] exI [of _ error]) simp
    then show ?thesis by simp
  qed
next
  case (no_key this w jwt w1)
  with assms show ?thesis by (simp add: validate_no_key)
next
  case (verify this w jwt publicKey w1)
  from assms have "\<exists>x. verify env token (key_material jwt publicKey) (verify_options this jwt) =
      OtherException x \<and> e = Rethrown x"
    by (auto simp: validate_verify [OF verify] split: verify_outcome.splits)
  then obtain x where
    "verify env token (key_material jwt publicKey) (verify_options this jwt) = OtherException x"
    "e = Rethrown x"
    by blast
  with verify have "\<exists>this w jwt publicKey w1 x.
        ensureMetadata env this0 w0 = (Inr this, w) \<and> decode env token = Some jwt \<and>
        getPublicKey env this jwt w = (Inr (Some publicKey), w1) \<and>
        verify env token (key_material jwt publicKey) (verify_options this jwt) =
          OtherException x \<and>
        e = Rethrown x"
    by (intro exI [of _ this] exI [of _ w] exI [of _ jwt] exI [of _ publicKey] exI [of _ w1]
          exI [of _ x]) simp
  then show ?thesis by simp
qed

text \<open>
  The empty identifier is never cached: \<open>getPublicKey\<close> writes the cache only under a
  truthy \<^verbatim>\<open>header.kid\<close>.
\<close>

lemma validate_empty_kid_not_cached:
  assumes "own (cache w0) [] = None"
  shows "own (cache (snd (snd (validate env this0 token w0)))) [] = None"
proof (cases rule: validate_stages [where env = env and ?this0.0 = this0 and ?w0.0 = w0 and token = token])
  case (metadata_throws e w)
  then show ?thesis
    using assms ensureMetadata_world [of env this0 w0] by (simp add: validate_metadata_throws)
next
  case (not_decoded this w)
  then show ?thesis
    using assms ensureMetadata_world [of env this0 w0] by (simp add: validate_not_decoded)
next
  case (key_throws this w jwt e w1)
  then show ?thesis
    using assms ensureMetadata_world [of env this0 w0]
      getPublicKey_empty_kid_not_cached [of w env this jwt]
    by (simp add: validate_key_throws)
next
  case (no_key this w jwt w1)
  then show ?thesis
    using assms ensureMetadata_world [of env this0 w0]
      getPublicKey_empty_kid_not_cached [of w env this jwt]
    by (simp add: validate_no_key)
next
  case (verify this w jwt publicKey w1)
  then show ?thesis
    using assms ensureMetadata_world [of env this0 w0]
      getPublicKey_empty_kid_not_cached [of w env this jwt]
    by (simp add: validate_verify [OF verify])
qed

lemma example_ensure_loaded: "ensureMetadata env loaded_validator w = (Inr loaded_validator, w)"
  by (simp add: ensureMetadata_def loaded_validator_def)

lemma example_ensure_offline:
  "ensureMetadata offline_env example_validator initial_world =
     (Inl (Error ''Network Error''),
      initial_world\<lparr>requests := [GetMetadata (Some ''/metadata'')]\<rparr>)"
  by (simp add: ensureMetadata_def loadMetadata_def Let_def example_validator_def
        example_options_def offline_env_def throwFormattedError_def initial_world_def)

lemma example_resolution:
  assumes "kid (header jwt) = Some ''kid-1''" and "azp (payload jwt) = None"
    and "appid (payload jwt) = Some ''app-1''"
  shows "getPublicKey (example_env [example_key1]) loaded_validator jwt initial_world =
     (Inr (Some example_key1),
      \<lparr>cache = \<lparr>own = [''kid-1'' \<mapsto> example_key1], prototype = None\<rparr>,
       requests = [GetKeys ''/keys?appid=app-1''], verify_calls = []\<rparr>)"
proof -
  have url: "keys_url loaded_validator (payload jwt) = ''/keys?appid=app-1''"
    using assms
    by (simp add: keys_url_def loaded_validator_def example_validator_def interpolate_def
          js_or_def truthy_def)
  have miss: "getItem (cache initial_world) ''kid-1'' = Inr None"
    by (simp add: getItem_def initial_world_def new_SimpleCache_def)
  have "axios_get_keys (example_env [example_key1]) (keys_url loaded_validator (payload jwt)) =
      Inr \<lparr>keys = [example_key1]\<rparr>"
    by (simp add: url example_env_def)
  from getPublicKey_miss_success [OF assms(1) _ miss this]
  show ?thesis
    by (simp add: url initial_world_def new_SimpleCache_def getItem_def setItem_def)
qed

lemma example_decode_cases:
  "decode (example_env ks) ''garbage'' = None"
  "decode (example_env ks) ''valid'' = Some (example_jwt ''HS256'' ''kid-1'' example_payload)"
  "decode (example_env ks) ''rsa'' = Some (example_jwt ''RS256'' ''kid-1'' example_payload)"
  "decode (example_env ks) ''other-tenant'' =
     Some (example_jwt ''HS256'' ''kid-1''
             (example_payload\<lparr>tid := Some ''tenant-2'', scp := None\<rparr>))"
  "decode (example_env ks) ''no-kid'' =
     Some \<lparr>header = \<lparr>alg = ''HS256'', kid = None\<rparr>, payload = example_payload,
           signature = ''sig''\<rparr>"
  "decode (example_env ks) ''unexpected'' = Some (example_jwt ''HS256'' ''kid-1'' example_payload)"
  "decode (example_env ks) ''reserved'' =
     Some (example_jwt ''HS256'' ''hasOwnProperty'' example_payload)"
  by (simp_all add: example_env_def example_decode_def)

lemma example_key_material:
  "key_material (example_jwt ''HS256'' k p) example_key1 = Some ''secret''"
  "key_material (example_jwt ''RS256'' k p) example_key1 =
     Some (''-----BEGIN CERTIFICATE-----'' @ [CHR 0x0A] @ ''secret'' @ [CHR 0x0A] @
           ''-----END CERTIFICATE-----'')"
  by (simp_all add: key_material_def indexOf_def x5c_0_def interpolate_def example_jwt_def
        example_key1_def)

lemma example_jwt_fields:
  "kid (header (example_jwt a k p)) = Some k" "alg (header (example_jwt a k p)) = a"
  "payload (example_jwt a k p) = p"
  by (simp_all add: example_jwt_def)

lemma example_payload_fields:
  "azp example_payload = None" "appid example_payload = Some ''app-1''"
  "azp (example_payload\<lparr>tid := t, scp := s\<rparr>) = None"
  "appid (example_payload\<lparr>tid := t, scp := s\<rparr>) = Some ''app-1''"
  by (simp_all add: example_payload_def)

lemma example_verify_cases:
  "verify (example_env ks) ''valid'' (Some ''secret'') vopts = Verified"
  "verify (example_env ks) ''other-tenant'' (Some ''secret'') vopts = Verified"
  "verify (example_env ks) ''unexpected'' material vopts = OtherException ''unexpected''"
  by (simp_all add: example_env_def example_verify_def)

lemma example_claims:
  "validateAdditionalClaims example_payload (options loaded_validator) =
     \<lparr>isValid = True, validationMessage = None\<rparr>"
  "validateAdditionalClaims (example_payload\<lparr>tid := Some ''tenant-2'', scp := None\<rparr>)
     (options loaded_validator) =
     \<lparr>isValid = False, validationMessage = Some ''tenantId does not match''\<rparr>"
  by (simp_all add: validateAdditionalClaims_cases tenant_rule_def application_rule_def
        scopes_rule_def loaded_validator_def example_validator_def example_options_def
        example_payload_def truthy_def every_def array_includes_def scopesAsArray_def)

lemma example_resolution_kid_1:
  "getPublicKey (example_env [example_key1]) loaded_validator
     (example_jwt a ''kid-1'' (example_payload\<lparr>tid := t, scp := s\<rparr>)) initial_world =
     (Inr (Some example_key1),
      \<lparr>cache = \<lparr>own = [''kid-1'' \<mapsto> example_key1], prototype = None\<rparr>,
       requests = [GetKeys ''/keys?appid=app-1''],
       verify_calls = []\<rparr>)"
  "getPublicKey (example_env [example_key1]) loaded_validator
     (example_jwt a ''kid-1'' example_payload) initial_world =
     (Inr (Some example_key1),
      \<lparr>cache = \<lparr>own = [''kid-1'' \<mapsto> example_key1], prototype = None\<rparr>,
       requests = [GetKeys ''/keys?appid=app-1''],
       verify_calls = []\<rparr>)"
  by (rule example_resolution; simp add: example_jwt_fields example_payload_fields)+

lemma example_validate_garbage:
  "fst (validate (example_env ks) loaded_validator ''garbage'' initial_world) =
     Inr \<lparr>isValid = False,
          validationMessage = Some ''The access token could not be decoded'',
          accessToken = ''garbage'', decodedAccessToken = None\<rparr>"
  by (simp add: validate_not_decoded [OF example_ensure_loaded example_decode_cases(1)])

lemma example_validate_valid:
  "fst (validate (example_env [example_key1]) loaded_validator ''valid'' initial_world) =
     Inr \<lparr>isValid = True, validationMessage = None, accessToken = ''valid'',
          decodedAccessToken = Some (example_jwt ''HS256'' ''kid-1'' example_payload)\<rparr>"
  by (simp add: validate_verify [OF example_ensure_loaded example_decode_cases(2)
          example_resolution_kid_1(2)]
        example_key_material example_verify_cases example_jwt_fields example_claims)

lemma example_validate_unexpected:
  "fst (validate (example_env [example_key1]) loaded_validator ''unexpected'' initial_world) =
     Inl (Rethrown ''unexpected'')"
  by (simp add: validate_verify [OF example_ensure_loaded example_decode_cases(6)
          example_resolution_kid_1(2)] example_verify_cases)

lemma example_validate_offline:
  "fst (validate offline_env example_validator ''valid'' initial_world) =
     Inl (Error ''Network Error'')"
  by (simp add: validate_metadata_throws [OF example_ensure_offline])

text \<open>
  Claim C4. When a key has been resolved, \<open>validate\<close> calls \<^verbatim>\<open>verify\<close> once, with the
  token, and with options whose algorithm list is the one algorithm of the token's
  header, whose audience is the configured audience and whose issuer is the configured
  \<open>validIssuers\<close>, absent when that is absent. In every run the calls of \<^verbatim>\<open>verify\<close>
  are those made before, or those and one such call.
\<close>

theorem verify_invoked_with_pinned_options:
  "(ensureMetadata env this0 w0 = (Inr this, w) \<and> decode env token = Some jwt \<and>
    getPublicKey env this jwt w = (Inr (Some publicKey), w1) \<longrightarrow>
      verify_calls (snd (snd (validate env this0 token w0))) =
        verify_calls w0 @
          [\<lparr>call_token = token, call_key = key_material jwt publicKey,
            call_options =
              \<lparr>algorithms = [alg (header jwt)], verify_audience = audience (options this0),
               issuer = validIssuers (options this0)\<rparr>\<rparr>]) \<and>
   (verify_calls (snd (snd (validate env this0 token w0))) = verify_calls w0 \<or>
    (\<exists>jwt material.
       decode env token = Some jwt \<and>
       verify_calls (snd (snd (validate env this0 token w0))) =
         verify_calls w0 @
           [\<lparr>call_token = token, call_key = material,
             call_options =
               \<lparr>algorithms = [alg (header jwt)], verify_audience = audience (options this0),
                issuer = validIssuers (options this0)\<rparr>\<rparr>]))"
proof -
  have "verify_calls (snd (snd (validate env this0 token w0))) = verify_calls w0 \<or>
    (\<exists>jwt material.
       decode env token = Some jwt \<and>
       verify_calls (snd (snd (validate env this0 token w0))) =
         verify_calls w0 @
           [\<lparr>call_token = token, call_key = material,
             call_options =
               \<lparr>algorithms = [alg (header jwt)], verify_audience = audience (options this0),
                issuer = validIssuers (options this0)\<rparr>\<rparr>])"
  proof (cases "\<exists>this w jwt publicKey w1. ensureMetadata env this0 w0 = (Inr this, w) \<and>
      decode env token = Some jwt \<and> getPublicKey env this jwt w = (Inr (Some publicKey), w1)")
    case True
    then obtain this w jwt publicKey w1 where
      h: "ensureMetadata env this0 w0 = (Inr this, w)" "decode env token = Some jwt"
         "getPublicKey env this jwt w = (Inr (Some publicKey), w1)"
      by blast
    show ?thesis
      using validate_verify_calls [OF h] h(2) by blast
  next
    case False
    then show ?thesis
      using validate_verify_calls_unchanged by blast
  qed
  then show ?thesis
    using validate_verify_calls by blast
qed

theorem verify_invoked_with_pinned_options_witness:
  "verify_calls
     (snd (snd (validate (example_env [example_key1]) loaded_validator ''valid'' initial_world))) =
     [\<lparr>call_token = ''valid'', call_key = Some ''secret'',
       call_options =
         \<lparr>algorithms = [''HS256''], verify_audience = Some ''api://aud'', issuer = None\<rparr>\<rparr>]"
proof -
  let ?jwt = "example_jwt ''HS256'' ''kid-1'' example_payload"
  have res: "getPublicKey (example_env [example_key1]) loaded_validator ?jwt initial_world =
     (Inr (Some example_key1),
      \<lparr>cache = \<lparr>own = [''kid-1'' \<mapsto> example_key1], prototype = None\<rparr>,
       requests = [GetKeys ''/keys?appid=app-1''],
       verify_calls = []\<rparr>)"
    by (rule example_resolution) (simp_all add: example_jwt_fields example_payload_fields)
  have opts: "audience (options loaded_validator) = Some ''api://aud''"
    "validIssuers (options loaded_validator) = None" "verify_calls initial_world = []"
    by (simp_all add: loaded_validator_def example_validator_def example_options_def
          initial_world_def)
  from verify_invoked_with_pinned_options
         [where env = "example_env [example_key1]" and ?this0.0 = loaded_validator
            and ?w0.0 = initial_world and this = loaded_validator and w = initial_world
            and token = "''valid''" and jwt = ?jwt and publicKey = example_key1]
       example_ensure_loaded example_decode_cases(2) res
  show ?thesis
    by (simp add: example_key_material example_jwt_fields opts)
qed

text \<open>
  Claim C6. For a resolved key with a first certificate value, the key material of the
  call of \<^verbatim>\<open>verify\<close> is that value between the PEM certificate delimiters when the
  algorithm of the token's header begins with \<open>RS\<close>, and the value itself otherwise.
\<close>

theorem verify_key_material:
  "ensureMetadata env this0 w0 = (Inr this, w) \<and> decode env token = Some jwt \<and>
   getPublicKey env this jwt w = (Inr (Some publicKey), w1) \<and>
   x5c publicKey = certificate # others \<longrightarrow>
     (\<exists>vopts.
        verify_calls (snd (snd (validate env this0 token w0))) =
          verify_calls w0 @
            [\<lparr>call_token = token,
              call_key =
                Some (if prefix ''RS'' (alg (header jwt))
                      then ''-----BEGIN CERTIFICATE-----'' @ [CHR 0x0A] @ certificate @
                           [CHR 0x0A] @ ''-----END CERTIFICATE-----''
                      else certificate),
              call_options = vopts\<rparr>])"
  using validate_verify_calls [of env this0 w0 this w token jwt publicKey w1]
    key_material_first_certificate [of publicKey certificate others jwt]
  by auto

theorem verify_key_material_witness:
  "(\<exists>vopts.
      verify_calls
        (snd (snd (validate (example_env [example_key1]) loaded_validator ''rsa''
                     initial_world))) =
        [\<lparr>call_token = ''rsa'',
          call_key = Some (''-----BEGIN CERTIFICATE-----'' @ [CHR 0x0A] @ ''secret'' @
                           [CHR 0x0A] @ ''-----END CERTIFICATE-----''),
          call_options = vopts\<rparr>]) \<and>
   (\<exists>vopts.
      verify_calls
        (snd (snd (validate (example_env [example_key1]) loaded_validator ''valid''
                     initial_world))) =
        [\<lparr>call_token = ''valid'', call_key = Some ''secret'', call_options = vopts\<rparr>])"
proof -
  let ?rsa = "example_jwt ''RS256'' ''kid-1'' example_payload"
  let ?hs = "example_jwt ''HS256'' ''kid-1'' example_payload"
  have res: "getPublicKey (example_env [example_key1]) loaded_validator
       (example_jwt a ''kid-1'' example_payload) initial_world =
     (Inr (Some example_key1),
      \<lparr>cache = \<lparr>own = [''kid-1'' \<mapsto> example_key1], prototype = None\<rparr>,
       requests = [GetKeys ''/keys?appid=app-1''],
       verify_calls = []\<rparr>)" for a
    by (rule example_resolution) (simp_all add: example_jwt_fields example_payload_fields)
  have cert: "x5c example_key1 = ''secret'' # []"
    by (simp add: example_key1_def)
  have w0: "verify_calls initial_world = []"
    by (simp add: initial_world_def)
  from verify_key_material
         [where env = "example_env [example_key1]" and ?this0.0 = loaded_validator
            and ?w0.0 = initial_world and this = loaded_validator and w = initial_world
            and token = "''rsa''" and jwt = ?rsa and publicKey = example_key1
            and certificate = "''secret''" and others = "[]"]
       example_ensure_loaded example_decode_cases(3) res cert
  have a: "\<exists>vopts.
      verify_calls
        (snd (snd (validate (example_env [example_key1]) loaded_validator ''rsa''
                     initial_world))) =
        [\<lparr>call_token = ''rsa'',
          call_key = Some (''-----BEGIN CERTIFICATE-----'' @ [CHR 0x0A] @ ''secret'' @
                           [CHR 0x0A] @ ''-----END CERTIFICATE-----''),
          call_options = vopts\<rparr>]"
    by (simp add: example_jwt_fields w0)
  from verify_key_material
         [where env = "example_env [example_key1]" and ?this0.0 = loaded_validator
            and ?w0.0 = initial_world and this = loaded_validator and w = initial_world
            and token = "''valid''" and jwt = ?hs and publicKey = example_key1
            and certificate = "''secret''" and others = "[]"]
       example_ensure_loaded example_decode_cases(2) res cert
  have b: "\<exists>vopts.
      verify_calls
        (snd (snd (validate (example_env [example_key1]) loaded_validator ''valid''
                     initial_world))) =
        [\<lparr>call_token = ''valid'', call_key = Some ''secret'', call_options = vopts\<rparr>]"
    by (simp add: example_jwt_fields w0)
  from a b show ?thesis by blast
qed

text \<open>
  Claim C10. A result of \<open>validateRules\<close>, and a result that \<open>validate\<close> returns, has a
  message exactly when it is not valid.
\<close>

theorem results_have_message_iff_invalid:
  "(validationMessage (validateRules v rules) \<noteq> None \<longleftrightarrow>
      \<not> isValid (validateRules v rules)) \<and>
   (fst (validate env this0 token w0) = Inr result \<longrightarrow>
      (validationMessage result \<noteq> None \<longleftrightarrow> \<not> isValid result))"
proof -
  have "validationMessage result \<noteq> None \<longleftrightarrow> \<not> isValid result"
    if r: "fst (validate env this0 token w0) = Inr result"
  proof (cases rule: validate_stages [where env = env and ?this0.0 = this0 and ?w0.0 = w0 and token = token])
    case (metadata_throws e w)
    with r show ?thesis by (simp add: validate_metadata_throws)
  next
    case (not_decoded this w)
    with r show ?thesis by (auto simp: validate_not_decoded)
  next
    case (key_throws this w jwt e w1)
    with r show ?thesis by (simp add: validate_key_throws)
  next
    case (no_key this w jwt w1)
    with r show ?thesis by (auto simp: validate_no_key)
  next
    case (verify this w jwt publicKey w1)
    show ?thesis
      using r validateRules_message_iff [of "payload jwt" "validators (options this)"]
      by (auto simp: validate_verify [OF verify] validateAdditionalClaims_def
            split: verify_outcome.splits)
  qed
  then show ?thesis using validateRules_message_iff [of v rules] by blast
qed

theorem results_have_message_iff_invalid_witness:
  "fst (validate (example_env [example_key1]) loaded_validator ''garbage'' initial_world) =
     Inr \<lparr>isValid = False,
          validationMessage = Some ''The access token could not be decoded'',
          accessToken = ''garbage'', decodedAccessToken = None\<rparr> \<and>
   fst (validate (example_env [example_key1]) loaded_validator ''valid'' initial_world) =
     Inr \<lparr>isValid = True, validationMessage = None, accessToken = ''valid'',
          decodedAccessToken = Some (example_jwt ''HS256'' ''kid-1'' example_payload)\<rparr> \<and>
   ((validationMessage
       (validateRules example_payload (validators example_options)) \<noteq> None) =
    (\<not> isValid (validateRules example_payload (validators example_options))))"
  using results_have_message_iff_invalid
          [where env = "example_env [example_key1]" and ?this0.0 = loaded_validator
             and token = "''garbage''" and ?w0.0 = initial_world and v = example_payload
             and rules = "validators example_options"
             and result = "\<lparr>isValid = False,
                 validationMessage = Some ''The access token could not be decoded'',
                 accessToken = ''garbage'', decodedAccessToken = None\<rparr>"]
        example_validate_garbage [of "[example_key1]"] example_validate_valid
  by blast

lemma example_reserved_resolution:
  "getPublicKey (example_env [example_key1]) loaded_validator
     (example_jwt ''HS256'' ''hasOwnProperty'' example_payload) initial_world =
     (Inl (TypeError ''this.memoryCache.hasOwnProperty is not a function''),
      \<lparr>cache = \<lparr>own = [''hasOwnProperty'' \<mapsto> example_key1], prototype = None\<rparr>,
       requests = [GetKeys ''/keys?appid=app-1''], verify_calls = []\<rparr>)"
  by (simp add: getPublicKey_def getItem_def setItem_def Let_def example_keys_url
        example_jwt_def example_env_def initial_world_def new_SimpleCache_def)

lemma example_poisoned_resolution:
  "getPublicKey env loaded_validator (example_jwt a ''kid-1'' p)
     \<lparr>cache = \<lparr>own = [''hasOwnProperty'' \<mapsto> example_key1], prototype = None\<rparr>,
      requests = rs, verify_calls = vs\<rparr> =
     (Inl (TypeError ''this.memoryCache.hasOwnProperty is not a function''),
      \<lparr>cache = \<lparr>own = [''hasOwnProperty'' \<mapsto> example_key1], prototype = None\<rparr>,
       requests = rs, verify_calls = vs\<rparr>)"
  by (simp add: getPublicKey_def getItem_def example_jwt_def)

text \<open>
  Claim C3 fails on the code. The metadata is loaded, the token decodes, its header
  names the key \<open>hasOwnProperty\<close>, and the key request succeeds with one key. The key
  is stored under that name, where it shadows the method that the final cache lookup
  calls, and \<open>validate\<close> throws a \<^verbatim>\<open>TypeError\<close>: no request has failed and the verifier
  has not been called. In the world left behind, validating the token that was valid
  throws the same error.
\<close>

theorem validate_reserved_kid_throws:
  "decode (example_env [example_key1]) ''reserved'' =
     Some (example_jwt ''HS256'' ''hasOwnProperty'' example_payload) \<and>
   axios_get_keys (example_env [example_key1]) ''/keys?appid=app-1'' =
     Inr \<lparr>keys = [example_key1]\<rparr> \<and>
   validate (example_env [example_key1]) loaded_validator ''reserved'' initial_world =
     (Inl (TypeError ''this.memoryCache.hasOwnProperty is not a function''),
      loaded_validator,
      \<lparr>cache = \<lparr>own = [''hasOwnProperty'' \<mapsto> example_key1], prototype = None\<rparr>,
       requests = [GetKeys ''/keys?appid=app-1''], verify_calls = []\<rparr>) \<and>
   validate (example_env [example_key1]) loaded_validator ''valid''
     \<lparr>cache = \<lparr>own = [''hasOwnProperty'' \<mapsto> example_key1], prototype = None\<rparr>,
      requests = [GetKeys ''/keys?appid=app-1''], verify_calls = []\<rparr> =
     (Inl (TypeError ''this.memoryCache.hasOwnProperty is not a function''),
      loaded_validator,
      \<lparr>cache = \<lparr>own = [''hasOwnProperty'' \<mapsto> example_key1], prototype = None\<rparr>,
       requests = [GetKeys ''/keys?appid=app-1''], verify_calls = []\<rparr>) \<and>
   fst (validate (example_env [example_key1]) loaded_validator ''valid'' initial_world) =
     Inr \<lparr>isValid = True, validationMessage = None, accessToken = ''valid'',
          decodedAccessToken = Some (example_jwt ''HS256'' ''kid-1'' example_payload)\<rparr>"
proof -
  have fetch: "axios_get_keys (example_env [example_key1]) ''/keys?appid=app-1'' =
     Inr \<lparr>keys = [example_key1]\<rparr>"
    by (simp add: example_env_def)
  note first = validate_key_throws
    [OF example_ensure_loaded example_decode_cases(7) example_reserved_resolution]
  note second = validate_key_throws
    [OF example_ensure_loaded example_decode_cases(2) example_poisoned_resolution]
  show ?thesis
    using fetch first second example_validate_valid example_decode_cases(7) [of "[example_key1]"]
    by simp
qed

end
